theory Spec2Isabelle
  imports Main
begin

section \<open>Errors and results\<close>

text \<open>
  A Go \<^verbatim>\<open>error\<close> is a value with a message. \<open>Err\<close> is an ordinary error;
  \<open>Aggregate\<close> is the one error that sums up the per-object failures of one
  \<^verbatim>\<open>Apply\<close> call, each failure kept with the identity of its object.
\<close>

datatype error = Err string | Aggregate "(string \<times> error) list"

fun Error :: "error \<Rightarrow> string" where
  "Error (Err m) = m"
| "Error (Aggregate fs) = concat (map (\<lambda>(k, e). k @ '': '' @ Error e @ ''; '') fs)"

text \<open>
  Modelled from the spec: the type \<^verbatim>\<open>controller.Result\<close> is declared in package
  \<^verbatim>\<open>controller\<close>, which is not among the sources. The spec describes it as a signal
  that is either continue (run the next phase) or stop-clean (end the pass, no error);
  failure is a non-nil error next to the zero Result. The zero value
  \<^verbatim>\<open>controller.Result{}\<close> is the continue signal: it is what \<^verbatim>\<open>ReconcileControlPlane\<close>
  returns, a phase that the spec says "logs and continues", and what every phase of the
  reconciler returns on its successful path.
\<close>

datatype Result = Continue | StopClean

text \<open>Modelled from the spec: the zero value \<^verbatim>\<open>controller.Result{}\<close>.\<close>

definition zero_Result :: Result where
  "zero_Result = Continue"

section \<open>Data model\<close>

record ObjectKey =
  Namespace :: string
  Name :: string

record Secret =
  Data :: "string \<rightharpoonup> string"

record ClusterStatus =
  FailureMessage :: "string option"

record Cluster =
  cluster_Name :: string
  cluster_Namespace :: string
  KubernetesVersion :: string
  Status :: ClusterStatus

record VSphereDatacenterConfigStatus =
  SpecValid :: bool
  dc_FailureMessage :: "string option"

record VSphereDatacenterConfig =
  dc_Name :: string
  dc_Status :: VSphereDatacenterConfigStatus

record VSphereMachineConfig =
  mc_Name :: string

text \<open>
  The cluster spec of one pass (\<^verbatim>\<open>*cluster.Spec\<close>). The phases receive a pointer to it
  and mutate it in place; the model passes the spec in and returns the updated one.
  The pointers \<^verbatim>\<open>Cluster\<close> and \<^verbatim>\<open>VSphereDatacenter\<close> are non-nil in a spec built for a
  vSphere cluster, which the record types express.
\<close>

record Spec =
  Cluster :: Cluster
  VSphereDatacenter :: VSphereDatacenterConfig
  VSphereMachineConfigs :: "(string \<times> VSphereMachineConfig) list"

text \<open>A desired-state object: its identity and the fields this system manages.\<close>

record Object =
  obj_id :: string
  obj_fields :: "(string \<times> string) list"

datatype Workers = Workers (WorkerObjects: "Object list")

datatype RemoteClient = RemoteClient string

section \<open>The world outside the spec\<close>

text \<open>
  Every call the reconciler makes on a collaborator leaves an event, in call order.
  A phase that was invoked is visible by the events only it emits.
\<close>

datatype Event =
    LogError string error string
  | LogInfo string string
  | ClientGet ObjectKey
  | ValidateCall Spec
  | GetClient ObjectKey
  | CNIReconcile RemoteClient Spec
  | ApplyAttempt string
  | StoreWrite string

type_synonym Environ = "string \<rightharpoonup> string"

type_synonym Store = "string \<rightharpoonup> (string \<rightharpoonup> string)"

record World =
  env :: Environ
  store :: Store
  trace :: "Event list"

definition record_event :: "Event \<Rightarrow> World \<Rightarrow> World" where
  "record_event e w = w\<lparr>trace := trace w @ [e]\<rparr>"

text \<open>The events a step added to the trace, and whether the validator was called.\<close>

definition new_events :: "World \<Rightarrow> World \<Rightarrow> Event list" where
  "new_events w w' = drop (length (trace w)) (trace w')"

fun is_ValidateCall :: "Event \<Rightarrow> bool" where
  "is_ValidateCall (ValidateCall sp) = True"
| "is_ValidateCall _ = False"

text \<open>The objects attempted and the objects written, read off a list of events.\<close>

fun attempted :: "Event list \<Rightarrow> string list" where
  "attempted [] = []"
| "attempted (ApplyAttempt k # evs) = k # attempted evs"
| "attempted (e # evs) = attempted evs"

fun written :: "Event list \<Rightarrow> string list" where
  "written [] = []"
| "written (StoreWrite k # evs) = k # written evs"
| "written (e # evs) = written evs"

text \<open>
  \<^verbatim>\<open>os.Setenv\<close> of the Go standard library: it fails with \<^verbatim>\<open>EINVAL\<close> on an empty key,
  on a key that holds \<^verbatim>\<open>=\<close> or a NUL byte and on a value that holds a NUL byte;
  otherwise it sets the variable for the whole process.
\<close>

definition os_Setenv :: "string \<Rightarrow> string \<Rightarrow> Environ \<Rightarrow> error + Environ" where
  "os_Setenv key val e =
     (if key = [] \<or> CHR ''='' \<in> set key \<or> CHR 0x00 \<in> set key \<or> CHR 0x00 \<in> set val
      then Inl (Err ''setenv: invalid argument'')
      else Inr (e(key \<mapsto> val)))"

section \<open>Collaborators\<close>

text \<open>
  The fields of the \<^verbatim>\<open>Reconciler\<close> struct are interfaces implemented elsewhere; each
  is a function of what the call passes. \<open>client_Get\<close> is \<^verbatim>\<open>client.Get\<close> on the local
  store for a secret, \<open>validator\<close> is \<^verbatim>\<open>ValidateClusterMachineConfigs\<close> (it reads the
  process environment, where the credentials are put for it), \<open>cniReconciler\<close> is
  \<^verbatim>\<open>CNIReconciler.Reconcile\<close>, \<open>remoteClientRegistry\<close> is \<^verbatim>\<open>RemoteClientRegistry.GetClient\<close>.
  \<open>ObjectApplier\<close> says, for each object, whether the local store fails its
  create-or-update and with which error. \<^verbatim>\<open>vsphere.NewSpec\<close> only wraps the cluster spec
  for the validator, so the validator is given the spec itself. The collaborators follow
  their interface contracts: they return values and do not write to the cluster spec.
\<close>

record Reconciler =
  client_Get :: "ObjectKey \<Rightarrow> error + Secret"
  validator :: "Spec \<Rightarrow> Environ \<Rightarrow> error option"
  cniReconciler :: "RemoteClient \<Rightarrow> Spec \<Rightarrow> Result \<times> error option"
  remoteClientRegistry :: "ObjectKey \<Rightarrow> error + RemoteClient"
  ObjectApplier :: "Object \<Rightarrow> error option"

text \<open>
  Constants and functions of imported packages of the repository whose declarations are
  not among the sources; they are parameters of the model.
\<close>

record Imports =
  CredentialsObjectName :: string
  EksavSphereUsernameKey :: string
  EksavSpherePasswordKey :: string
  vsphere_SetupEnvVars :: "VSphereDatacenterConfig \<Rightarrow> Environ \<Rightarrow> error option \<times> Environ"
  BuildSpec :: "Cluster \<Rightarrow> error + Spec"
  CapiClusterObjectKey :: "Cluster \<Rightarrow> ObjectKey"
  WorkersSpec :: "Spec \<Rightarrow> error + Workers"

section \<open>Phase runner\<close>

type_synonym 's Phase = "'s \<Rightarrow> (Result \<times> error option) \<times> 's"

text \<open>
  Modelled from the spec: \<^verbatim>\<open>controller.PhaseRunner\<close> with \<^verbatim>\<open>NewPhaseRunner\<close>,
  \<^verbatim>\<open>Register\<close> and \<^verbatim>\<open>Run\<close> is not among the sources. \<^verbatim>\<open>Register\<close> appends phases to
  an ordered list and returns the runner. \<^verbatim>\<open>Run\<close> iterates the phases in registration
  order and invokes each on the shared spec; on an error it returns at once the zero
  Result and the error; on a stop-clean Result it returns at once that Result and no
  error; otherwise it goes on, and after the last phase it returns that phase's Result
  and no error.
\<close>

record 's PhaseRunner =
  phases :: "'s Phase list"

definition NewPhaseRunner :: "'s PhaseRunner" where
  "NewPhaseRunner = \<lparr>phases = []\<rparr>"

definition Register :: "'s Phase list \<Rightarrow> 's PhaseRunner \<Rightarrow> 's PhaseRunner" where
  "Register ps pr = pr\<lparr>phases := phases pr @ ps\<rparr>"

text \<open>
  Modelled from the spec: the loop of \<^verbatim>\<open>Run\<close>, steps 1 to 6 of the spec's phase runner.
  Next to the outcome it counts the phases it has invoked; they are invoked in list
  order from the first, so a count of \<open>n\<close> says that exactly the first \<open>n\<close> phases
  were invoked.
\<close>

fun run_phases :: "'s Phase list \<Rightarrow> Result \<Rightarrow> 's \<Rightarrow> ((Result \<times> error option) \<times> 's) \<times> nat" where
  "run_phases [] prev s = (((prev, None), s), 0)"
| "run_phases (p # ps) prev s =
     (case p s of
        ((r, Some err), s') \<Rightarrow> (((zero_Result, Some err), s'), 1)
      | ((r, None), s') \<Rightarrow>
          if r = StopClean then (((r, None), s'), 1)
          else (case run_phases ps r s' of (out, n) \<Rightarrow> (out, Suc n)))"

text \<open>Modelled from the spec: \<^verbatim>\<open>Run(ctx, log, spec)\<close>, the outcome of the loop.\<close>

definition Run :: "'s PhaseRunner \<Rightarrow> 's \<Rightarrow> (Result \<times> error option) \<times> 's" where
  "Run pr s = fst (run_phases (phases pr) zero_Result s)"

text \<open>The number of phases that \<open>Run pr s\<close> invokes.\<close>

definition invoked :: "'s PhaseRunner \<Rightarrow> 's \<Rightarrow> nat" where
  "invoked pr s = snd (run_phases (phases pr) zero_Result s)"

section \<open>Desired-state applier\<close>

text \<open>
  Modelled from the spec: \<^verbatim>\<open>serverside.ObjectApplier\<close> and its \<^verbatim>\<open>Apply\<close> are not among
  the sources. \<^verbatim>\<open>Apply\<close> invokes the producer for the desired objects, then attempts to
  create or update each of them in the target store. The comparison with the stored
  object looks only at the fields this system manages: an object whose managed fields
  are stored as desired is left alone (no write), and a write keeps the fields other
  writers set. Every object is attempted whatever happened to the others; the failures
  are collected and, if there is one, returned as one error after the last attempt.
\<close>

definition in_desired_state :: "Object \<Rightarrow> Store \<Rightarrow> bool" where
  "in_desired_state ob st =
     (case st (obj_id ob) of
        None \<Rightarrow> False
      | Some fs \<Rightarrow> list_all (\<lambda>f. fs f = map_of (obj_fields ob) f) (map fst (obj_fields ob)))"

definition owned_merge :: "Object \<Rightarrow> Store \<Rightarrow> (string \<rightharpoonup> string)" where
  "owned_merge ob st =
     (case st (obj_id ob) of
        None \<Rightarrow> map_of (obj_fields ob)
      | Some fs \<Rightarrow> fs ++ map_of (obj_fields ob))"

text \<open>
  Modelled from the spec: the create-or-update of one object. The attempt is recorded;
  if the store fails it the error is the outcome; otherwise the object is written only
  when its managed fields differ from what is stored.
\<close>

definition apply_object :: "(Object \<Rightarrow> error option) \<Rightarrow> Object \<Rightarrow> World \<Rightarrow> error option \<times> World" where
  "apply_object fails ob w =
     (let w1 = record_event (ApplyAttempt (obj_id ob)) w in
      case fails ob of
        Some err \<Rightarrow> (Some err, w1)
      | None \<Rightarrow>
          if in_desired_state ob (store w1) then (None, w1)
          else (None, record_event (StoreWrite (obj_id ob))
                 (w1\<lparr>store := (store w1)(obj_id ob \<mapsto> owned_merge ob (store w1))\<rparr>)))"

text \<open>
  Modelled from the spec: all objects are attempted in order, a failure does not stop
  the loop, and each failure is kept with the identity of its object.
\<close>

fun apply_objects :: "(Object \<Rightarrow> error option) \<Rightarrow> Object list \<Rightarrow> World \<Rightarrow> (string \<times> error) list \<times> World" where
  "apply_objects fails [] w = ([], w)"
| "apply_objects fails (ob # obs) w =
     (case apply_object fails ob w of
        (None, w1) \<Rightarrow> apply_objects fails obs w1
      | (Some err, w1) \<Rightarrow>
          (case apply_objects fails obs w1 of (fs, w2) \<Rightarrow> ((obj_id ob, err) # fs, w2)))"

text \<open>
  Modelled from the spec: the collected failures combined into one error, or no error
  when nothing failed.
\<close>

definition aggregate :: "(string \<times> error) list \<Rightarrow> error option" where
  "aggregate fs = (if fs = [] then None else Some (Aggregate fs))"

text \<open>
  Modelled from the spec: \<^verbatim>\<open>Apply(ctx, producer)\<close>. A producer that fails has computed
  no desired set; its error is returned and nothing is attempted.
\<close>

definition Apply :: "(Object \<Rightarrow> error option) \<Rightarrow> (unit \<Rightarrow> error + Object list) \<Rightarrow> World \<Rightarrow> (Result \<times> error option) \<times> World" where
  "Apply fails producer w =
     (case producer () of
        Inl err \<Rightarrow> ((zero_Result, Some err), w)
      | Inr objs \<Rightarrow>
          (case apply_objects fails objs w of (fs, w') \<Rightarrow> ((zero_Result, aggregate fs), w')))"

text \<open>
  The failure records one \<^verbatim>\<open>Apply\<close> call is expected to collect: one for each object
  whose create-or-update fails, in the order of the objects.
\<close>

definition failures :: "(Object \<Rightarrow> error option) \<Rightarrow> Object list \<Rightarrow> (string \<times> error) list" where
  "failures fails objs =
     concat (map (\<lambda>ob. case fails ob of None \<Rightarrow> [] | Some err \<Rightarrow> [(obj_id ob, err)]) objs)"

section \<open>The vSphere reconciler\<close>

type_synonym PassState = "Spec \<times> World"

definition VsphereCredentials :: "Imports \<Rightarrow> (ObjectKey \<Rightarrow> error + Secret) \<Rightarrow> World \<Rightarrow> (error + Secret) \<times> World" where
  "VsphereCredentials im cli w =
     (let secretKey = \<lparr>Namespace = ''eksa-system'', Name = CredentialsObjectName im\<rparr>
      in (cli secretKey, record_event (ClientGet secretKey) w))"

text \<open>\<^verbatim>\<open>string(secret.Data[k])\<close>: a missing key reads as the nil slice, the empty string.\<close>

definition data_string :: "Secret \<Rightarrow> string \<Rightarrow> string" where
  "data_string secret k = (case Data secret k of None \<Rightarrow> [] | Some b \<Rightarrow> b)"

definition SetupEnvVars :: "Imports \<Rightarrow> VSphereDatacenterConfig \<Rightarrow> (ObjectKey \<Rightarrow> error + Secret) \<Rightarrow> World \<Rightarrow> error option \<times> World" where
  "SetupEnvVars im vsphereDatacenter cli w =
     (case VsphereCredentials im cli w of
        (Inl err, w1) \<Rightarrow>
          (Some (Err (''failed getting vsphere credentials secret: '' @ Error err)), w1)
      | (Inr secret, w1) \<Rightarrow>
          (let vsphereUsername = data_string secret ''username'';
               vspherePassword = data_string secret ''password''
           in case os_Setenv (EksavSphereUsernameKey im) vsphereUsername (env w1) of
                Inl err \<Rightarrow>
                  (Some (Err (''failed setting env '' @ EksavSphereUsernameKey im @ '': '' @ Error err)), w1)
              | Inr e1 \<Rightarrow>
                  (case os_Setenv (EksavSpherePasswordKey im) vspherePassword e1 of
                     Inl err \<Rightarrow>
                       (Some (Err (''failed setting env '' @ EksavSpherePasswordKey im @ '': '' @ Error err)),
                        w1\<lparr>env := e1\<rparr>)
                   | Inr e2 \<Rightarrow>
                       (case vsphere_SetupEnvVars im vsphereDatacenter e2 of
                          (Some err, e3) \<Rightarrow>
                            (Some (Err (''failed setting env vars: '' @ Error err)), w1\<lparr>env := e3\<rparr>)
                        | (None, e3) \<Rightarrow> (None, w1\<lparr>env := e3\<rparr>)))))"

text \<open>The assignment \<^verbatim>\<open>clusterSpec.Cluster.Status.FailureMessage = &failureMessage\<close>.\<close>

definition set_FailureMessage :: "string \<Rightarrow> Spec \<Rightarrow> Spec" where
  "set_FailureMessage failureMessage clusterSpec =
     clusterSpec\<lparr>Cluster := (Cluster clusterSpec)
       \<lparr>Status := (Status (Cluster clusterSpec))\<lparr>FailureMessage := Some failureMessage\<rparr>\<rparr>\<rparr>"

definition ValidateDatacenterConfig :: "Reconciler \<Rightarrow> PassState Phase" where
  "ValidateDatacenterConfig r = (\<lambda>(clusterSpec, w).
     let dataCenterConfig = VSphereDatacenter clusterSpec in
     if \<not> SpecValid (dc_Status dataCenterConfig) then
       (let failureMessage =
              (case dc_FailureMessage (dc_Status dataCenterConfig) of
                 Some m \<Rightarrow> m
               | None \<Rightarrow> [])
        in ((zero_Result, None),
            (set_FailureMessage failureMessage clusterSpec,
             record_event
               (LogError ''validateDatacenterConfig'' (Err failureMessage) ''Invalid VSphereDatacenterConfig'')
               w)))
     else ((zero_Result, None), (clusterSpec, w)))"

definition ValidateMachineConfigs :: "Imports \<Rightarrow> Reconciler \<Rightarrow> PassState Phase" where
  "ValidateMachineConfigs im r = (\<lambda>(clusterSpec, w).
     let datacenterConfig = VSphereDatacenter clusterSpec in
     case SetupEnvVars im datacenterConfig (client_Get r) w of
       (Some err, w1) \<Rightarrow>
         ((zero_Result, Some err),
          (clusterSpec,
           record_event (LogError ''validateMachineConfigs'' err ''Failed to set up env vars for Govc'') w1))
     | (None, w1) \<Rightarrow>
         (let w2 = record_event (ValidateCall clusterSpec) w1 in
          case validator r clusterSpec (env w2) of
            Some err \<Rightarrow>
              ((zero_Result, Some err),
               (set_FailureMessage (Error err) clusterSpec,
                record_event (LogError ''validateMachineConfigs'' err ''Invalid VSphereMachineConfig'') w2))
          | None \<Rightarrow> ((zero_Result, None), (clusterSpec, w2))))"

definition ReconcileControlPlane :: "Reconciler \<Rightarrow> PassState Phase" where
  "ReconcileControlPlane r = (\<lambda>(clusterSpec, w).
     ((zero_Result, None),
      (clusterSpec,
       record_event (LogInfo ''reconcileControlPlane'' ''Applying control plane CAPI objects'') w)))"

definition ReconcileCNI :: "Imports \<Rightarrow> Reconciler \<Rightarrow> PassState Phase" where
  "ReconcileCNI im r = (\<lambda>(clusterSpec, w).
     let key = CapiClusterObjectKey im (Cluster clusterSpec);
         w1 = record_event (GetClient key) w
     in case remoteClientRegistry r key of
          Inl err \<Rightarrow> ((zero_Result, Some err), (clusterSpec, w1))
        | Inr client \<Rightarrow>
            (cniReconciler r client clusterSpec,
             (clusterSpec, record_event (CNIReconcile client clusterSpec) w1)))"

text \<open>The closure \<^verbatim>\<open>ReconcileWorkers\<close> hands to \<^verbatim>\<open>Apply\<close> as the producer.\<close>

definition workers_producer :: "Imports \<Rightarrow> Spec \<Rightarrow> unit \<Rightarrow> error + Object list" where
  "workers_producer im clusterSpec = (\<lambda>_.
     case WorkersSpec im clusterSpec of
       Inl err \<Rightarrow> Inl err
     | Inr ws \<Rightarrow> Inr (WorkerObjects ws))"

definition ReconcileWorkers :: "Imports \<Rightarrow> Reconciler \<Rightarrow> PassState Phase" where
  "ReconcileWorkers im r = (\<lambda>(clusterSpec, w).
     let w1 = record_event (LogInfo ''reconcileWorkers'' ''Applying worker CAPI objects'') w
     in case Apply (ObjectApplier r) (workers_producer im clusterSpec) w1 of
          (res, w2) \<Rightarrow> (res, (clusterSpec, w2)))"

definition registered :: "Imports \<Rightarrow> Reconciler \<Rightarrow> PassState PhaseRunner" where
  "registered im r =
     Register
       [ValidateDatacenterConfig r,
        ValidateMachineConfigs im r,
        ReconcileControlPlane r,
        ReconcileCNI im r,
        ReconcileWorkers im r]
       NewPhaseRunner"

definition Reconcile :: "Imports \<Rightarrow> Reconciler \<Rightarrow> Cluster \<Rightarrow> World \<Rightarrow> (Result \<times> error option) \<times> Spec option \<times> World" where
  "Reconcile im r cluster w =
     (case BuildSpec im cluster of
        Inl err \<Rightarrow> ((zero_Result, Some err), None, w)
      | Inr clusterSpec \<Rightarrow>
          (case Run (registered im r) (clusterSpec, w) of
             (res, (clusterSpec', w')) \<Rightarrow> (res, Some clusterSpec', w')))"

section \<open>A concrete cluster\<close>

text \<open>
  One cluster, its collaborators and a world, used to run the definitions on concrete
  inputs. The datacenter config's validity flag and stored failure message are
  arguments of the spec.
\<close>

definition ex_cluster :: Cluster where
  "ex_cluster =
     \<lparr>cluster_Name = ''w01'', cluster_Namespace = ''default'', KubernetesVersion = ''1.23'',
      Status = \<lparr>FailureMessage = None\<rparr>\<rparr>"

definition ex_spec :: "bool \<Rightarrow> string option \<Rightarrow> Spec" where
  "ex_spec valid msg =
     \<lparr>Cluster = ex_cluster,
      VSphereDatacenter = \<lparr>dc_Name = ''dc'', dc_Status = \<lparr>SpecValid = valid, dc_FailureMessage = msg\<rparr>\<rparr>,
      VSphereMachineConfigs = [(''w01'', \<lparr>mc_Name = ''w01''\<rparr>)]\<rparr>"

definition ex_world :: World where
  "ex_world = \<lparr>env = Map.empty, store = Map.empty, trace = []\<rparr>"

definition ex_secret :: Secret where
  "ex_secret = \<lparr>Data = [''username'' \<mapsto> ''admin'', ''password'' \<mapsto> ''s3cret'']\<rparr>"

definition ex_objects :: "Object list" where
  "ex_objects =
     [\<lparr>obj_id = ''A'', obj_fields = [(''replicas'', ''1'')]\<rparr>,
      \<lparr>obj_id = ''B'', obj_fields = [(''replicas'', ''2'')]\<rparr>,
      \<lparr>obj_id = ''C'', obj_fields = [(''replicas'', ''3'')]\<rparr>]"

definition ex_imports :: "bool \<Rightarrow> string option \<Rightarrow> Imports" where
  "ex_imports valid msg =
     \<lparr>CredentialsObjectName = ''vsphere-credentials'',
      EksavSphereUsernameKey = ''EKSA_VSPHERE_USERNAME'',
      EksavSpherePasswordKey = ''EKSA_VSPHERE_PASSWORD'',
      vsphere_SetupEnvVars = (\<lambda>dc e. (None, e)),
      BuildSpec = (\<lambda>c. Inr (ex_spec valid msg)),
      CapiClusterObjectKey = (\<lambda>c. \<lparr>Namespace = ''eksa-system'', Name = cluster_Name c\<rparr>),
      WorkersSpec = (\<lambda>sp. Inr (Workers ex_objects))\<rparr>"

definition ex_reconciler :: Reconciler where
  "ex_reconciler =
     \<lparr>client_Get = (\<lambda>k. Inr ex_secret),
      validator = (\<lambda>sp e. None),
      cniReconciler = (\<lambda>c sp. (Continue, None)),
      remoteClientRegistry = (\<lambda>k. Inr (RemoteClient ''w01'')),
      ObjectApplier = (\<lambda>ob. None)\<rparr>"

definition ex_phase :: "nat \<Rightarrow> Result \<Rightarrow> error option \<Rightarrow> nat list Phase" where
  "ex_phase i r e = (\<lambda>s. ((r, e), s @ [i]))"

definition ex_unreachable :: Reconciler where
  "ex_unreachable =
     ex_reconciler\<lparr>remoteClientRegistry := (\<lambda>k. Inl (Err ''workload cluster unreachable''))\<rparr>"

definition ex_invalid_machines :: Reconciler where
  "ex_invalid_machines =
     ex_reconciler\<lparr>validator := (\<lambda>sp e. Some (Err ''datastore not found''))\<rparr>"

definition ex_nul_password :: Reconciler where
  "ex_nul_password =
     ex_reconciler\<lparr>client_Get :=
       (\<lambda>k. Inr \<lparr>Data = [''username'' \<mapsto> ''admin'', ''password'' \<mapsto> [CHR 0x00]]\<rparr>)\<rparr>"

definition ex_fails_B :: "Object \<Rightarrow> error option" where
  "ex_fails_B ob = (if obj_id ob = ''B'' then Some (Err ''admission webhook denied the request'') else None)"

definition ex_login :: Reconciler where
  "ex_login =
     ex_reconciler\<lparr>validator :=
       (\<lambda>sp e. if e ''EKSA_VSPHERE_USERNAME'' = Some ''admin'' \<and>
                    e ''EKSA_VSPHERE_PASSWORD'' = Some ''s3cret''
                 then None else Some (Err ''login failed''))\<rparr>"





section \<open>Shared facts\<close>

lemma phases_registered:
  "phases (registered im r) =
     [ValidateDatacenterConfig r, ValidateMachineConfigs im r, ReconcileControlPlane r,
      ReconcileCNI im r, ReconcileWorkers im r]"
  by (simp add: registered_def Register_def NewPhaseRunner_def)

lemma run_phases_all_continue:
  "run_phases ps prev s = (((r0, None), sk), n) \<Longrightarrow> r0 \<noteq> StopClean \<Longrightarrow> n = length ps"
  by (induction ps arbitrary: prev s n)
     (auto split: prod.splits option.splits if_splits)

lemma run_phases_append:
  "run_phases ps prev s = (((r0, None), sk), n) \<Longrightarrow> r0 \<noteq> StopClean \<Longrightarrow>
   run_phases (ps @ qs) prev s =
     (case run_phases qs r0 sk of (out, m) \<Rightarrow> (out, length ps + m))"
  by (induction ps arbitrary: prev s n)
     (auto split: prod.splits option.splits if_splits)

lemma run_phases_error_at:
  assumes "k < length ps"
    and "run_phases (take k ps) prev s = (((r0, None), sk), n)"
    and "r0 \<noteq> StopClean"
    and "(ps ! k) sk = ((r, Some err), s')"
  shows "run_phases ps prev s = (((zero_Result, Some err), s'), Suc k)"
proof -
  have parts: "ps = take k ps @ (ps ! k) # drop (Suc k) ps"
    using assms(1) by (simp add: id_take_nth_drop)
  have "run_phases (take k ps @ (ps ! k) # drop (Suc k) ps) prev s =
        (((zero_Result, Some err), s'), Suc k)"
    using run_phases_append [OF assms(2,3), of "(ps ! k) # drop (Suc k) ps"] assms(1,4)
    by simp
  with parts show ?thesis by simp
qed

lemma run_phases_count_le:
  "run_phases ps prev s = (out, n) \<Longrightarrow> n \<le> length ps"
  by (induction ps arbitrary: prev s out n)
     (fastforce split: prod.splits option.splits if_splits)+

lemma run_phases_count_ge:
  "run_phases (p # ps) prev s = (out, n) \<Longrightarrow> 1 \<le> n"
  by (auto split: prod.splits option.splits if_splits)

lemma ValidateMachineConfigs_zero: "fst (fst (ValidateMachineConfigs im r s)) = zero_Result"
  by (cases s) (simp add: ValidateMachineConfigs_def Let_def split: prod.splits option.splits)

lemma env_record_event [simp]: "env (record_event e w) = env w"
  by (simp add: record_event_def)

lemma trace_record_event [simp]: "trace (record_event e w) = trace w @ [e]"
  by (simp add: record_event_def)

lemma new_events_append [simp]: "trace w' = trace w @ evs \<Longrightarrow> new_events w w' = evs"
  by (simp add: new_events_def)

lemma SetupEnvVars_trace:
  "trace (snd (SetupEnvVars im dc cli w)) =
     trace w @ [ClientGet \<lparr>Namespace = ''eksa-system'', Name = CredentialsObjectName im\<rparr>]"
  by (simp add: SetupEnvVars_def VsphereCredentials_def Let_def
      split: sum.splits prod.splits option.splits)

lemma ValidateDatacenterConfig_continues:
  "fst (ValidateDatacenterConfig r s) = (zero_Result, None)"
  by (cases s) (simp add: ValidateDatacenterConfig_def Let_def)

lemma ReconcileControlPlane_continues:
  "ReconcileControlPlane r (sp, w) =
     ((zero_Result, None),
      (sp, record_event (LogInfo ''reconcileControlPlane'' ''Applying control plane CAPI objects'') w))"
  by (simp add: ReconcileControlPlane_def)

lemma Reconcile_built:
  "BuildSpec im cluster = Inr sp0 \<Longrightarrow> Run (registered im r) (sp0, w0) = (res, (sp', w')) \<Longrightarrow>
   Reconcile im r cluster w0 = (res, Some sp', w')"
  by (simp add: Reconcile_def)

section \<open>ValidateDatacenterConfig\<close>

text \<open>
  C9. \<^verbatim>\<open>ValidateDatacenterConfig\<close> never returns a non-nil error, whatever the spec; and
  when the datacenter config is marked invalid with no stored failure message, the
  cluster status failure message becomes a pointer to the empty string, not nil.
\<close>

theorem ValidateDatacenterConfig_no_error:
  "snd (fst (ValidateDatacenterConfig r (clusterSpec, w))) = None \<and>
   (\<not> SpecValid (dc_Status (VSphereDatacenter clusterSpec)) \<and>
    dc_FailureMessage (dc_Status (VSphereDatacenter clusterSpec)) = None \<longrightarrow>
      FailureMessage (Status (Cluster (fst (snd (ValidateDatacenterConfig r (clusterSpec, w))))))
        = Some [])"
  by (simp add: ValidateDatacenterConfig_def set_FailureMessage_def Let_def)

theorem ValidateDatacenterConfig_no_error_witness:
  "\<not> SpecValid (dc_Status (VSphereDatacenter (ex_spec False None))) \<and>
   dc_FailureMessage (dc_Status (VSphereDatacenter (ex_spec False None))) = None \<and>
   FailureMessage (Status (Cluster (ex_spec False None))) = None \<and>
   snd (fst (ValidateDatacenterConfig ex_reconciler (ex_spec False None, ex_world))) = None \<and>
   FailureMessage (Status (Cluster (fst (snd
     (ValidateDatacenterConfig ex_reconciler (ex_spec False None, ex_world)))))) = Some []"
  using ValidateDatacenterConfig_no_error [of ex_reconciler "ex_spec False None" ex_world]
  by (simp add: ex_spec_def ex_cluster_def)

section \<open>Phase runner: short circuit on error\<close>

text \<open>
  C2. For every registered phase list and every index \<open>k\<close>: if the phases before \<open>k\<close>
  all continued, so that phase \<open>k\<close> is invoked, and phase \<open>k\<close> returns a non-nil error,
  then \<^verbatim>\<open>Run\<close> returns exactly that error with the zero Result, the state is the one
  phase \<open>k\<close> left, and exactly \<open>k + 1\<close> phases were invoked: none of the later ones.
\<close>

theorem Run_error_stops:
  assumes "k < length ps"
    and "Run (Register (take k ps) NewPhaseRunner) s = ((r0, None), sk)"
    and "r0 \<noteq> StopClean"
    and "(ps ! k) sk = ((r, Some err), s')"
  shows "Run (Register ps NewPhaseRunner) s = ((zero_Result, Some err), s') \<and>
         invoked (Register ps NewPhaseRunner) s = Suc k"
proof -
  obtain n where pre: "run_phases (take k ps) zero_Result s = (((r0, None), sk), n)"
    using assms(2)
    by (cases "run_phases (take k ps) zero_Result s")
       (simp add: Run_def Register_def NewPhaseRunner_def)
  have "run_phases ps zero_Result s = (((zero_Result, Some err), s'), Suc k)"
    using run_phases_error_at [OF assms(1) pre assms(3,4)] .
  then show ?thesis
    by (simp add: Run_def invoked_def Register_def NewPhaseRunner_def)
qed

theorem Run_error_stops_witness:
  "Run (Register [ex_phase 0 Continue None, ex_phase 1 StopClean (Some (Err ''boom'')),
                  ex_phase 2 Continue None] NewPhaseRunner) [] =
     ((zero_Result, Some (Err ''boom'')), [0, 1]) \<and>
   invoked (Register [ex_phase 0 Continue None, ex_phase 1 StopClean (Some (Err ''boom'')),
                      ex_phase 2 Continue None] NewPhaseRunner) [] = 2"
  using Run_error_stops [of 1 "[ex_phase 0 Continue None, ex_phase 1 StopClean (Some (Err ''boom'')),
                                ex_phase 2 Continue None]"
                            "[]" Continue "[0]" StopClean "Err ''boom''" "[0, 1]"]
  by (simp add: Run_def Register_def NewPhaseRunner_def ex_phase_def zero_Result_def)

section \<open>ReconcileCNI\<close>

text \<open>
  C3. In \<^verbatim>\<open>ReconcileCNI\<close>: if the remote client registry fails to resolve a client for
  the workload cluster, the phase returns that error unchanged, and a pass that reached
  the phase ends there with that error, four phases invoked, the spec as the CNI phase
  found it and nothing in the world but the lookup: the workers phase is not invoked.
  If the registry resolves a client, the phase returns exactly the Result and error of
  the CNI reconciler, called with that client and the spec.
\<close>

theorem ReconcileCNI_client_resolution:
  "(\<forall>err. remoteClientRegistry r (CapiClusterObjectKey im (Cluster sp)) = Inl err \<longrightarrow>
      ReconcileCNI im r (sp, w) =
        ((zero_Result, Some err),
         (sp, record_event (GetClient (CapiClusterObjectKey im (Cluster sp))) w)) \<and>
      (\<forall>cluster sp0 w0 r0.
         BuildSpec im cluster = Inr sp0 \<and>
         Run (Register [ValidateDatacenterConfig r, ValidateMachineConfigs im r,
                        ReconcileControlPlane r] NewPhaseRunner) (sp0, w0) = ((r0, None), (sp, w)) \<and>
         r0 \<noteq> StopClean \<longrightarrow>
         Reconcile im r cluster w0 =
           ((zero_Result, Some err), Some sp,
            record_event (GetClient (CapiClusterObjectKey im (Cluster sp))) w) \<and>
         invoked (registered im r) (sp0, w0) = 4)) \<and>
   (\<forall>client. remoteClientRegistry r (CapiClusterObjectKey im (Cluster sp)) = Inr client \<longrightarrow>
      fst (ReconcileCNI im r (sp, w)) = cniReconciler r client sp \<and>
      snd (ReconcileCNI im r (sp, w)) =
        (sp, record_event (CNIReconcile client sp)
               (record_event (GetClient (CapiClusterObjectKey im (Cluster sp))) w)))"
proof (intro conjI allI impI)
  fix err
  assume "remoteClientRegistry r (CapiClusterObjectKey im (Cluster sp)) = Inl err"
  then show cni: "ReconcileCNI im r (sp, w) =
      ((zero_Result, Some err),
       (sp, record_event (GetClient (CapiClusterObjectKey im (Cluster sp))) w))"
    by (simp add: ReconcileCNI_def Let_def)
  fix cluster sp0 w0 r0
  assume pre: "BuildSpec im cluster = Inr sp0 \<and>
     Run (Register [ValidateDatacenterConfig r, ValidateMachineConfigs im r,
                    ReconcileControlPlane r] NewPhaseRunner) (sp0, w0) = ((r0, None), (sp, w)) \<and>
     r0 \<noteq> StopClean"
  then obtain n where three:
    "run_phases (take 3 (phases (registered im r))) zero_Result (sp0, w0) = (((r0, None), (sp, w)), n)"
    by (cases "run_phases (take 3 (phases (registered im r))) zero_Result (sp0, w0)")
       (simp add: Run_def Register_def NewPhaseRunner_def phases_registered)
  have "run_phases (phases (registered im r)) zero_Result (sp0, w0) =
          (((zero_Result, Some err),
            (sp, record_event (GetClient (CapiClusterObjectKey im (Cluster sp))) w)), Suc 3)"
    using pre cni
    by (intro run_phases_error_at [OF _ three]) (simp_all add: phases_registered)
  then have run: "Run (registered im r) (sp0, w0) =
      ((zero_Result, Some err),
       (sp, record_event (GetClient (CapiClusterObjectKey im (Cluster sp))) w))"
    and count: "invoked (registered im r) (sp0, w0) = 4"
    by (simp_all add: Run_def invoked_def)
  from pre run show "Reconcile im r cluster w0 =
      ((zero_Result, Some err), Some sp,
       record_event (GetClient (CapiClusterObjectKey im (Cluster sp))) w)"
    by (simp add: Reconcile_built)
  from count show "invoked (registered im r) (sp0, w0) = 4" .
next
  fix client
  assume "remoteClientRegistry r (CapiClusterObjectKey im (Cluster sp)) = Inr client"
  then show "fst (ReconcileCNI im r (sp, w)) = cniReconciler r client sp"
    and "snd (ReconcileCNI im r (sp, w)) =
        (sp, record_event (CNIReconcile client sp)
               (record_event (GetClient (CapiClusterObjectKey im (Cluster sp))) w))"
    by (simp_all add: ReconcileCNI_def Let_def)
qed

theorem ReconcileCNI_client_resolution_witness:
  "Reconcile (ex_imports True None) ex_unreachable ex_cluster ex_world =
     ((zero_Result, Some (Err ''workload cluster unreachable'')),
      Some (ex_spec True None),
      \<lparr>env = [''EKSA_VSPHERE_USERNAME'' \<mapsto> ''admin'', ''EKSA_VSPHERE_PASSWORD'' \<mapsto> ''s3cret''],
       store = Map.empty,
       trace = [ClientGet \<lparr>Namespace = ''eksa-system'', Name = ''vsphere-credentials''\<rparr>,
                ValidateCall (ex_spec True None),
                LogInfo ''reconcileControlPlane'' ''Applying control plane CAPI objects'',
                GetClient \<lparr>Namespace = ''eksa-system'', Name = ''w01''\<rparr>]\<rparr>) \<and>
   invoked (registered (ex_imports True None) ex_unreachable) (ex_spec True None, ex_world) = 4 \<and>
   FailureMessage (Status (Cluster (ex_spec True None))) = None \<and>
   ReconcileCNI (ex_imports True None) ex_reconciler (ex_spec True None, ex_world) =
     ((Continue, None),
      (ex_spec True None,
       \<lparr>env = Map.empty, store = Map.empty,
        trace = [GetClient \<lparr>Namespace = ''eksa-system'', Name = ''w01''\<rparr>,
                 CNIReconcile (RemoteClient ''w01'') (ex_spec True None)]\<rparr>))"
proof -
  let ?im = "ex_imports True None"
  let ?sp = "ex_spec True None"
  let ?w = "\<lparr>env = [''EKSA_VSPHERE_USERNAME'' \<mapsto> ''admin'', ''EKSA_VSPHERE_PASSWORD'' \<mapsto> ''s3cret''],
       store = Map.empty,
       trace = [ClientGet \<lparr>Namespace = ''eksa-system'', Name = ''vsphere-credentials''\<rparr>,
                ValidateCall (ex_spec True None),
                LogInfo ''reconcileControlPlane'' ''Applying control plane CAPI objects'']\<rparr>"
  have fails: "remoteClientRegistry ex_unreachable (CapiClusterObjectKey ?im (Cluster ?sp)) =
                 Inl (Err ''workload cluster unreachable'')"
    by (simp add: ex_unreachable_def)
  have pre: "BuildSpec ?im ex_cluster = Inr ?sp \<and>
     Run (Register [ValidateDatacenterConfig ex_unreachable, ValidateMachineConfigs ?im ex_unreachable,
                    ReconcileControlPlane ex_unreachable] NewPhaseRunner) (?sp, ex_world) =
       ((Continue, None), (?sp, ?w)) \<and>
     Continue \<noteq> StopClean"
    by (simp add: Run_def Register_def NewPhaseRunner_def ValidateDatacenterConfig_def
        ValidateMachineConfigs_def ReconcileControlPlane_def SetupEnvVars_def VsphereCredentials_def
        os_Setenv_def data_string_def record_event_def ex_unreachable_def ex_reconciler_def
        ex_imports_def ex_spec_def ex_world_def ex_secret_def zero_Result_def Let_def)
  have resolves: "remoteClientRegistry ex_reconciler (CapiClusterObjectKey ?im (Cluster ?sp)) =
                 Inr (RemoteClient ''w01'')"
    by (simp add: ex_reconciler_def)
  note unreachable = ReconcileCNI_client_resolution [where r = ex_unreachable and im = ?im
      and sp = ?sp and w = ?w, THEN conjunct1, rule_format, OF fails,
      THEN conjunct2, rule_format, OF pre]
  note reachable = ReconcileCNI_client_resolution [where r = ex_reconciler and im = ?im
      and sp = ?sp and w = ex_world, THEN conjunct2, rule_format, OF resolves]
  from unreachable reachable show ?thesis
    by (simp add: prod_eq_iff record_event_def ex_imports_def ex_spec_def ex_cluster_def
        ex_world_def ex_reconciler_def)
qed

section \<open>ValidateMachineConfigs: a failed validation\<close>

text \<open>
  C4. In \<^verbatim>\<open>ValidateMachineConfigs\<close>, once the credentials are in the environment and
  the validator is called: if the validation fails, the phase records the failure
  message (the error's text) on the cluster status and returns that error with the zero
  Result; the pass ends there with the status updated, two phases invoked.
\<close>

theorem ValidateMachineConfigs_validation_failure:
  assumes "SetupEnvVars im (VSphereDatacenter sp) (client_Get r) w = (None, w1)"
    and "validator r sp (env w1) = Some err"
  shows "ValidateMachineConfigs im r (sp, w) =
           ((zero_Result, Some err),
            (set_FailureMessage (Error err) sp,
             record_event (LogError ''validateMachineConfigs'' err ''Invalid VSphereMachineConfig'')
               (record_event (ValidateCall sp) w1))) \<and>
         FailureMessage (Status (Cluster (fst (snd (ValidateMachineConfigs im r (sp, w)))))) =
           Some (Error err) \<and>
         (\<forall>cluster sp0 w0.
            BuildSpec im cluster = Inr sp0 \<and> snd (ValidateDatacenterConfig r (sp0, w0)) = (sp, w) \<longrightarrow>
            Reconcile im r cluster w0 =
              ((zero_Result, Some err),
               Some (set_FailureMessage (Error err) sp),
               record_event (LogError ''validateMachineConfigs'' err ''Invalid VSphereMachineConfig'')
                 (record_event (ValidateCall sp) w1)) \<and>
            invoked (registered im r) (sp0, w0) = 2)"
proof (intro conjI allI impI)
  show vmc: "ValidateMachineConfigs im r (sp, w) =
           ((zero_Result, Some err),
            (set_FailureMessage (Error err) sp,
             record_event (LogError ''validateMachineConfigs'' err ''Invalid VSphereMachineConfig'')
               (record_event (ValidateCall sp) w1)))"
    using assms by (simp add: ValidateMachineConfigs_def Let_def)
  then show "FailureMessage (Status (Cluster (fst (snd (ValidateMachineConfigs im r (sp, w)))))) =
           Some (Error err)"
    by (simp add: set_FailureMessage_def)
  fix cluster sp0 w0
  assume pre: "BuildSpec im cluster = Inr sp0 \<and> snd (ValidateDatacenterConfig r (sp0, w0)) = (sp, w)"
  then have vdc: "ValidateDatacenterConfig r (sp0, w0) = ((zero_Result, None), (sp, w))"
    using ValidateDatacenterConfig_continues [of r "(sp0, w0)"] by (simp add: prod_eq_iff)
  have k: "1 < length (phases (registered im r))"
    by (simp add: phases_registered)
  have one: "run_phases (take 1 (phases (registered im r))) zero_Result (sp0, w0) =
               (((zero_Result, None), (sp, w)), 1)"
    using vdc by (simp add: phases_registered zero_Result_def)
  have ne: "zero_Result \<noteq> StopClean"
    by (simp add: zero_Result_def)
  have at: "(phases (registered im r) ! 1) (sp, w) =
           ((zero_Result, Some err),
            (set_FailureMessage (Error err) sp,
             record_event (LogError ''validateMachineConfigs'' err ''Invalid VSphereMachineConfig'')
               (record_event (ValidateCall sp) w1)))"
    using vmc by (simp add: phases_registered)
  have "run_phases (phases (registered im r)) zero_Result (sp0, w0) =
          (((zero_Result, Some err),
            (set_FailureMessage (Error err) sp,
             record_event (LogError ''validateMachineConfigs'' err ''Invalid VSphereMachineConfig'')
               (record_event (ValidateCall sp) w1))), Suc 1)"
    using run_phases_error_at [OF k one ne at] .
  then have run: "Run (registered im r) (sp0, w0) =
          ((zero_Result, Some err),
            (set_FailureMessage (Error err) sp,
             record_event (LogError ''validateMachineConfigs'' err ''Invalid VSphereMachineConfig'')
               (record_event (ValidateCall sp) w1)))"
    and count: "invoked (registered im r) (sp0, w0) = 2"
    by (simp_all add: Run_def invoked_def)
  from pre run show "Reconcile im r cluster w0 =
              ((zero_Result, Some err),
               Some (set_FailureMessage (Error err) sp),
               record_event (LogError ''validateMachineConfigs'' err ''Invalid VSphereMachineConfig'')
                 (record_event (ValidateCall sp) w1))"
    by (simp add: Reconcile_built)
  from count show "invoked (registered im r) (sp0, w0) = 2" .
qed

theorem ValidateMachineConfigs_validation_failure_witness:
  "Reconcile (ex_imports True None) ex_invalid_machines ex_cluster ex_world =
     ((zero_Result, Some (Err ''datastore not found'')),
      Some (set_FailureMessage ''datastore not found'' (ex_spec True None)),
      \<lparr>env = [''EKSA_VSPHERE_USERNAME'' \<mapsto> ''admin'', ''EKSA_VSPHERE_PASSWORD'' \<mapsto> ''s3cret''],
       store = Map.empty,
       trace = [ClientGet \<lparr>Namespace = ''eksa-system'', Name = ''vsphere-credentials''\<rparr>,
                ValidateCall (ex_spec True None),
                LogError ''validateMachineConfigs'' (Err ''datastore not found'')
                  ''Invalid VSphereMachineConfig'']\<rparr>) \<and>
   invoked (registered (ex_imports True None) ex_invalid_machines) (ex_spec True None, ex_world) = 2 \<and>
   FailureMessage (Status (Cluster (set_FailureMessage ''datastore not found'' (ex_spec True None)))) =
     Some ''datastore not found''"
proof -
  let ?im = "ex_imports True None"
  let ?sp = "ex_spec True None"
  let ?w1 = "\<lparr>env = [''EKSA_VSPHERE_USERNAME'' \<mapsto> ''admin'', ''EKSA_VSPHERE_PASSWORD'' \<mapsto> ''s3cret''],
       store = Map.empty,
       trace = [ClientGet \<lparr>Namespace = ''eksa-system'', Name = ''vsphere-credentials''\<rparr>]\<rparr>"
  have creds: "SetupEnvVars ?im (VSphereDatacenter ?sp) (client_Get ex_invalid_machines) ex_world =
                 (None, ?w1)"
    by (simp add: SetupEnvVars_def VsphereCredentials_def os_Setenv_def data_string_def
        record_event_def ex_invalid_machines_def ex_reconciler_def ex_imports_def ex_world_def
        ex_secret_def Let_def)
  have invalid: "validator ex_invalid_machines ?sp (env ?w1) = Some (Err ''datastore not found'')"
    by (simp add: ex_invalid_machines_def)
  have pre: "BuildSpec ?im ex_cluster = Inr ?sp \<and>
             snd (ValidateDatacenterConfig ex_invalid_machines (?sp, ex_world)) = (?sp, ex_world)"
    by (simp add: ValidateDatacenterConfig_def ex_imports_def ex_spec_def Let_def)
  from ValidateMachineConfigs_validation_failure [OF creds invalid, THEN conjunct2, THEN conjunct2,
         rule_format, OF pre]
  show ?thesis
    by (simp add: record_event_def set_FailureMessage_def)
qed

section \<open>ValidateMachineConfigs: credentials before validation\<close>

text \<open>
  C8. \<^verbatim>\<open>ValidateMachineConfigs\<close> first reads the credentials secret, named by the
  provider's credentials-object name in namespace \<^verbatim>\<open>eksa-system\<close>, through the local
  store's client. When the secret is retrieved and both variables are set, the
  environment handed on holds the secret's \<^verbatim>\<open>username\<close> and \<^verbatim>\<open>password\<close> under the two
  environment variables, the validator is then called with the spec and the prepared
  environment, and the phase returns the validator's verdict. If retrieving the secret
  fails, or setting either variable fails, or the provider's own environment set-up
  fails, the phase returns the wrapped error, the spec is as before and the validator
  is not called. The validator is never called on any other path.
\<close>

theorem ValidateMachineConfigs_credentials:
  "(\<exists>evs. trace (snd (snd (ValidateMachineConfigs im r (sp, w)))) =
            trace w @ ClientGet \<lparr>Namespace = ''eksa-system'', Name = CredentialsObjectName im\<rparr> # evs \<and>
          (list_ex is_ValidateCall evs \<longrightarrow>
             (\<exists>secret e3.
                client_Get r \<lparr>Namespace = ''eksa-system'', Name = CredentialsObjectName im\<rparr> = Inr secret \<and>
                vsphere_SetupEnvVars im (VSphereDatacenter sp)
                  ((env w)(EksavSphereUsernameKey im \<mapsto> data_string secret ''username'',
                           EksavSpherePasswordKey im \<mapsto> data_string secret ''password'')) = (None, e3) \<and>
                env (snd (snd (ValidateMachineConfigs im r (sp, w)))) = e3 \<and>
                snd (fst (ValidateMachineConfigs im r (sp, w))) = validator r sp e3))) \<and>
   (\<forall>err w1. SetupEnvVars im (VSphereDatacenter sp) (client_Get r) w = (Some err, w1) \<longrightarrow>
      fst (ValidateMachineConfigs im r (sp, w)) = (zero_Result, Some err) \<and>
      \<not> list_ex is_ValidateCall (new_events w (snd (snd (ValidateMachineConfigs im r (sp, w)))))) \<and>
   (\<forall>e. client_Get r \<lparr>Namespace = ''eksa-system'', Name = CredentialsObjectName im\<rparr> = Inl e \<longrightarrow>
      ValidateMachineConfigs im r (sp, w) =
        ((zero_Result, Some (Err (''failed getting vsphere credentials secret: '' @ Error e))),
         (sp, w\<lparr>trace := trace w @
                  [ClientGet \<lparr>Namespace = ''eksa-system'', Name = CredentialsObjectName im\<rparr>,
                   LogError ''validateMachineConfigs''
                     (Err (''failed getting vsphere credentials secret: '' @ Error e))
                     ''Failed to set up env vars for Govc'']\<rparr>))) \<and>
   (\<forall>secret e. client_Get r \<lparr>Namespace = ''eksa-system'', Name = CredentialsObjectName im\<rparr> = Inr secret \<and>
      os_Setenv (EksavSphereUsernameKey im) (data_string secret ''username'') (env w) = Inl e \<longrightarrow>
      ValidateMachineConfigs im r (sp, w) =
        ((zero_Result, Some (Err (''failed setting env '' @ EksavSphereUsernameKey im @ '': '' @ Error e))),
         (sp, w\<lparr>trace := trace w @
                  [ClientGet \<lparr>Namespace = ''eksa-system'', Name = CredentialsObjectName im\<rparr>,
                   LogError ''validateMachineConfigs''
                     (Err (''failed setting env '' @ EksavSphereUsernameKey im @ '': '' @ Error e))
                     ''Failed to set up env vars for Govc'']\<rparr>))) \<and>
   (\<forall>secret e1 e. client_Get r \<lparr>Namespace = ''eksa-system'', Name = CredentialsObjectName im\<rparr> = Inr secret \<and>
      os_Setenv (EksavSphereUsernameKey im) (data_string secret ''username'') (env w) = Inr e1 \<and>
      os_Setenv (EksavSpherePasswordKey im) (data_string secret ''password'') e1 = Inl e \<longrightarrow>
      e1 = (env w)(EksavSphereUsernameKey im \<mapsto> data_string secret ''username'') \<and>
      ValidateMachineConfigs im r (sp, w) =
        ((zero_Result, Some (Err (''failed setting env '' @ EksavSpherePasswordKey im @ '': '' @ Error e))),
         (sp, w\<lparr>env := e1,
               trace := trace w @
                  [ClientGet \<lparr>Namespace = ''eksa-system'', Name = CredentialsObjectName im\<rparr>,
                   LogError ''validateMachineConfigs''
                     (Err (''failed setting env '' @ EksavSpherePasswordKey im @ '': '' @ Error e))
                     ''Failed to set up env vars for Govc'']\<rparr>))) \<and>
   (\<forall>secret e1 e2 e e3. client_Get r \<lparr>Namespace = ''eksa-system'', Name = CredentialsObjectName im\<rparr> = Inr secret \<and>
      os_Setenv (EksavSphereUsernameKey im) (data_string secret ''username'') (env w) = Inr e1 \<and>
      os_Setenv (EksavSpherePasswordKey im) (data_string secret ''password'') e1 = Inr e2 \<and>
      vsphere_SetupEnvVars im (VSphereDatacenter sp) e2 = (Some e, e3) \<longrightarrow>
      ValidateMachineConfigs im r (sp, w) =
        ((zero_Result, Some (Err (''failed setting env vars: '' @ Error e))),
         (sp, w\<lparr>env := e3,
               trace := trace w @
                  [ClientGet \<lparr>Namespace = ''eksa-system'', Name = CredentialsObjectName im\<rparr>,
                   LogError ''validateMachineConfigs''
                     (Err (''failed setting env vars: '' @ Error e))
                     ''Failed to set up env vars for Govc'']\<rparr>))) \<and>
   (\<forall>secret e1 e2 e3. client_Get r \<lparr>Namespace = ''eksa-system'', Name = CredentialsObjectName im\<rparr> = Inr secret \<and>
      os_Setenv (EksavSphereUsernameKey im) (data_string secret ''username'') (env w) = Inr e1 \<and>
      os_Setenv (EksavSpherePasswordKey im) (data_string secret ''password'') e1 = Inr e2 \<and>
      vsphere_SetupEnvVars im (VSphereDatacenter sp) e2 = (None, e3) \<longrightarrow>
      e2 = (env w)(EksavSphereUsernameKey im \<mapsto> data_string secret ''username'',
                   EksavSpherePasswordKey im \<mapsto> data_string secret ''password'') \<and>
      e2 (EksavSpherePasswordKey im) = Some (data_string secret ''password'') \<and>
      (EksavSphereUsernameKey im \<noteq> EksavSpherePasswordKey im \<longrightarrow>
         e2 (EksavSphereUsernameKey im) = Some (data_string secret ''username'')) \<and>
      ValidateMachineConfigs im r (sp, w) =
        (case validator r sp e3 of
           None \<Rightarrow>
             ((zero_Result, None),
              (sp, w\<lparr>env := e3,
                    trace := trace w @
                      [ClientGet \<lparr>Namespace = ''eksa-system'', Name = CredentialsObjectName im\<rparr>,
                       ValidateCall sp]\<rparr>))
         | Some err \<Rightarrow>
             ((zero_Result, Some err),
              (set_FailureMessage (Error err) sp,
               w\<lparr>env := e3,
                 trace := trace w @
                   [ClientGet \<lparr>Namespace = ''eksa-system'', Name = CredentialsObjectName im\<rparr>,
                    ValidateCall sp,
                    LogError ''validateMachineConfigs'' err ''Invalid VSphereMachineConfig'']\<rparr>))))"
proof (intro conjI allI impI)
  show "\<exists>evs. trace (snd (snd (ValidateMachineConfigs im r (sp, w)))) =
            trace w @ ClientGet \<lparr>Namespace = ''eksa-system'', Name = CredentialsObjectName im\<rparr> # evs \<and>
          (list_ex is_ValidateCall evs \<longrightarrow>
             (\<exists>secret e3.
                client_Get r \<lparr>Namespace = ''eksa-system'', Name = CredentialsObjectName im\<rparr> = Inr secret \<and>
                vsphere_SetupEnvVars im (VSphereDatacenter sp)
                  ((env w)(EksavSphereUsernameKey im \<mapsto> data_string secret ''username'',
                           EksavSpherePasswordKey im \<mapsto> data_string secret ''password'')) = (None, e3) \<and>
                env (snd (snd (ValidateMachineConfigs im r (sp, w)))) = e3 \<and>
                snd (fst (ValidateMachineConfigs im r (sp, w))) = validator r sp e3))"
    by (auto simp: ValidateMachineConfigs_def SetupEnvVars_def VsphereCredentials_def
        os_Setenv_def Let_def
        split: sum.splits prod.splits option.splits if_splits)
next
  fix err w1
  assume f: "SetupEnvVars im (VSphereDatacenter sp) (client_Get r) w = (Some err, w1)"
  then show "fst (ValidateMachineConfigs im r (sp, w)) = (zero_Result, Some err)"
    by (simp add: ValidateMachineConfigs_def Let_def)
  from f SetupEnvVars_trace [of im "VSphereDatacenter sp" "client_Get r" w]
  show "\<not> list_ex is_ValidateCall (new_events w (snd (snd (ValidateMachineConfigs im r (sp, w)))))"
    by (simp add: ValidateMachineConfigs_def Let_def)
qed (auto simp: ValidateMachineConfigs_def SetupEnvVars_def VsphereCredentials_def
       os_Setenv_def record_event_def Let_def split: if_splits option.splits)

theorem ValidateMachineConfigs_credentials_witness:
  "ValidateMachineConfigs (ex_imports True None) ex_login (ex_spec True None, ex_world) =
     ((zero_Result, None),
      (ex_spec True None,
       \<lparr>env = [''EKSA_VSPHERE_USERNAME'' \<mapsto> ''admin'', ''EKSA_VSPHERE_PASSWORD'' \<mapsto> ''s3cret''],
        store = Map.empty,
        trace = [ClientGet \<lparr>Namespace = ''eksa-system'', Name = ''vsphere-credentials''\<rparr>,
                 ValidateCall (ex_spec True None)]\<rparr>)) \<and>
   validator ex_login (ex_spec True None) (env ex_world) = Some (Err ''login failed'') \<and>
   ValidateMachineConfigs (ex_imports True None) ex_nul_password (ex_spec True None, ex_world) =
     ((zero_Result, Some (Err ''failed setting env EKSA_VSPHERE_PASSWORD: setenv: invalid argument'')),
      (ex_spec True None,
       \<lparr>env = [''EKSA_VSPHERE_USERNAME'' \<mapsto> ''admin''], store = Map.empty,
        trace = [ClientGet \<lparr>Namespace = ''eksa-system'', Name = ''vsphere-credentials''\<rparr>,
                 LogError ''validateMachineConfigs''
                   (Err ''failed setting env EKSA_VSPHERE_PASSWORD: setenv: invalid argument'')
                   ''Failed to set up env vars for Govc'']\<rparr>)) \<and>
   \<not> list_ex is_ValidateCall
       (new_events ex_world
          (snd (snd (ValidateMachineConfigs (ex_imports True None) ex_nul_password
                       (ex_spec True None, ex_world)))))"
proof -
  let ?im = "ex_imports True None"
  let ?sp = "ex_spec True None"
  let ?e1 = "[''EKSA_VSPHERE_USERNAME'' \<mapsto> ''admin'']"
  let ?e2 = "[''EKSA_VSPHERE_USERNAME'' \<mapsto> ''admin'', ''EKSA_VSPHERE_PASSWORD'' \<mapsto> ''s3cret'']"
  have ok: "client_Get ex_login \<lparr>Namespace = ''eksa-system'', Name = CredentialsObjectName ?im\<rparr> =
              Inr ex_secret \<and>
            os_Setenv (EksavSphereUsernameKey ?im) (data_string ex_secret ''username'') (env ex_world) =
              Inr ?e1 \<and>
            os_Setenv (EksavSpherePasswordKey ?im) (data_string ex_secret ''password'') ?e1 = Inr ?e2 \<and>
            vsphere_SetupEnvVars ?im (VSphereDatacenter ?sp) ?e2 = (None, ?e2)"
    by (simp add: os_Setenv_def data_string_def ex_login_def ex_reconciler_def ex_imports_def
        ex_world_def ex_secret_def)
  note success = ValidateMachineConfigs_credentials [where im = ?im and r = ex_login and sp = ?sp
      and w = ex_world, THEN conjunct2, THEN conjunct2, THEN conjunct2, THEN conjunct2,
      THEN conjunct2, THEN conjunct2, rule_format, OF ok]
  have accepted: "validator ex_login ?sp ?e2 = None"
    by (simp add: ex_login_def)
  have rejected: "validator ex_login ?sp (env ex_world) = Some (Err ''login failed'')"
    by (simp add: ex_login_def ex_world_def)
  have bad: "client_Get ex_nul_password \<lparr>Namespace = ''eksa-system'', Name = CredentialsObjectName ?im\<rparr> =
              Inr \<lparr>Data = [''username'' \<mapsto> ''admin'', ''password'' \<mapsto> [CHR 0x00]]\<rparr> \<and>
            os_Setenv (EksavSphereUsernameKey ?im)
              (data_string \<lparr>Data = [''username'' \<mapsto> ''admin'', ''password'' \<mapsto> [CHR 0x00]]\<rparr> ''username'')
              (env ex_world) = Inr ?e1 \<and>
            os_Setenv (EksavSpherePasswordKey ?im)
              (data_string \<lparr>Data = [''username'' \<mapsto> ''admin'', ''password'' \<mapsto> [CHR 0x00]]\<rparr> ''password'')
              ?e1 = Inl (Err ''setenv: invalid argument'')"
    by (simp add: os_Setenv_def data_string_def ex_nul_password_def ex_reconciler_def ex_imports_def
        ex_world_def)
  note failure = ValidateMachineConfigs_credentials [where im = ?im and r = ex_nul_password
      and sp = ?sp and w = ex_world, THEN conjunct2, THEN conjunct2, THEN conjunct2,
      THEN conjunct2, THEN conjunct1, rule_format, OF bad]
  from success accepted rejected failure show ?thesis
    by (simp add: ex_world_def ex_imports_def new_events_def)
qed

section \<open>ValidateMachineConfigs: what a failed credential set-up leaves alone\<close>

text \<open>
  C10. When establishing the credentials fails inside \<^verbatim>\<open>ValidateMachineConfigs\<close>, the
  phase returns the error and the cluster spec, its status failure message included, is
  unchanged. The phase changes the spec only when the validator fails, and then only by
  setting the status failure message.
\<close>

theorem ValidateMachineConfigs_frame:
  "(\<forall>err w1. SetupEnvVars im (VSphereDatacenter sp) (client_Get r) w = (Some err, w1) \<longrightarrow>
      fst (ValidateMachineConfigs im r (sp, w)) = (zero_Result, Some err) \<and>
      fst (snd (ValidateMachineConfigs im r (sp, w))) = sp) \<and>
   (fst (snd (ValidateMachineConfigs im r (sp, w))) \<noteq> sp \<longrightarrow>
      (\<exists>w1 err. SetupEnvVars im (VSphereDatacenter sp) (client_Get r) w = (None, w1) \<and>
                validator r sp (env w1) = Some err \<and>
                fst (snd (ValidateMachineConfigs im r (sp, w))) = set_FailureMessage (Error err) sp))"
  by (auto simp: ValidateMachineConfigs_def Let_def split: prod.splits option.splits)

theorem ValidateMachineConfigs_frame_witness:
  "fst (SetupEnvVars (ex_imports True None) (VSphereDatacenter (ex_spec True None))
          (client_Get ex_nul_password) ex_world) =
     Some (Err ''failed setting env EKSA_VSPHERE_PASSWORD: setenv: invalid argument'') \<and>
   fst (ValidateMachineConfigs (ex_imports True None) ex_nul_password (ex_spec True None, ex_world)) =
     (zero_Result, Some (Err ''failed setting env EKSA_VSPHERE_PASSWORD: setenv: invalid argument'')) \<and>
   fst (snd (ValidateMachineConfigs (ex_imports True None) ex_nul_password
               (ex_spec True None, ex_world))) = ex_spec True None \<and>
   FailureMessage (Status (Cluster (fst (snd (ValidateMachineConfigs (ex_imports True None)
     ex_nul_password (ex_spec True None, ex_world)))))) = None"
proof -
  let ?im = "ex_imports True None"
  let ?sp = "ex_spec True None"
  have f: "SetupEnvVars ?im (VSphereDatacenter ?sp) (client_Get ex_nul_password) ex_world =
             (Some (Err ''failed setting env EKSA_VSPHERE_PASSWORD: setenv: invalid argument''),
              \<lparr>env = [''EKSA_VSPHERE_USERNAME'' \<mapsto> ''admin''], store = Map.empty,
               trace = [ClientGet \<lparr>Namespace = ''eksa-system'', Name = ''vsphere-credentials''\<rparr>]\<rparr>)"
    by (simp add: SetupEnvVars_def VsphereCredentials_def os_Setenv_def data_string_def
        record_event_def ex_nul_password_def ex_reconciler_def ex_imports_def ex_world_def Let_def)
  from ValidateMachineConfigs_frame [where im = ?im and r = ex_nul_password and sp = ?sp
         and w = ex_world, THEN conjunct1, rule_format, OF f] f
  show ?thesis
    by (simp add: ex_spec_def ex_cluster_def)
qed

section \<open>Reconcile: the fixed phase sequence\<close>

text \<open>
  C7. \<^verbatim>\<open>Reconcile\<close> first builds the cluster spec. If that fails it returns the zero
  Result with the error and the world is as before: no phase ran. If it succeeds,
  \<^verbatim>\<open>Reconcile\<close> registers exactly five phases, in the order validate datacenter config,
  validate machine configs, reconcile control plane, reconcile CNI, reconcile workers,
  and runs them: at least one and at most five are invoked, and when none of the first
  four stops the pass each phase runs on the state its predecessor left and the outcome
  is the workers phase's.
\<close>

theorem Reconcile_five_phases:
  "phases (registered im r) =
     [ValidateDatacenterConfig r, ValidateMachineConfigs im r, ReconcileControlPlane r,
      ReconcileCNI im r, ReconcileWorkers im r] \<and>
   (\<forall>err. BuildSpec im cluster = Inl err \<longrightarrow>
      Reconcile im r cluster w = ((zero_Result, Some err), None, w)) \<and>
   (\<forall>sp. BuildSpec im cluster = Inr sp \<longrightarrow>
      Reconcile im r cluster w =
        (fst (Run (registered im r) (sp, w)),
         Some (fst (snd (Run (registered im r) (sp, w)))),
         snd (snd (Run (registered im r) (sp, w)))) \<and>
      1 \<le> invoked (registered im r) (sp, w) \<and> invoked (registered im r) (sp, w) \<le> 5) \<and>
   (\<forall>sp r2 s2 r4 s4.
      BuildSpec im cluster = Inr sp \<and>
      ValidateMachineConfigs im r (snd (ValidateDatacenterConfig r (sp, w))) = ((r2, None), s2) \<and>
      ReconcileCNI im r (snd (ReconcileControlPlane r s2)) = ((r4, None), s4) \<and>
      r4 \<noteq> StopClean \<longrightarrow>
      Reconcile im r cluster w =
        (case ReconcileWorkers im r s4 of
           ((r5, Some err), s5) \<Rightarrow> ((zero_Result, Some err), Some (fst s5), snd s5)
         | ((r5, None), s5) \<Rightarrow> ((r5, None), Some (fst s5), snd s5)) \<and>
      invoked (registered im r) (sp, w) = 5)"
proof (intro conjI allI impI)
  show "phases (registered im r) =
     [ValidateDatacenterConfig r, ValidateMachineConfigs im r, ReconcileControlPlane r,
      ReconcileCNI im r, ReconcileWorkers im r]"
    by (rule phases_registered)
next
  fix err assume "BuildSpec im cluster = Inl err"
  then show "Reconcile im r cluster w = ((zero_Result, Some err), None, w)"
    by (simp add: Reconcile_def)
next
  fix sp assume "BuildSpec im cluster = Inr sp"
  then show "Reconcile im r cluster w =
        (fst (Run (registered im r) (sp, w)),
         Some (fst (snd (Run (registered im r) (sp, w)))),
         snd (snd (Run (registered im r) (sp, w))))"
    by (simp add: Reconcile_def split: prod.splits)
  obtain out n where run: "run_phases (phases (registered im r)) zero_Result (sp, w) = (out, n)"
    by (cases "run_phases (phases (registered im r)) zero_Result (sp, w)")
  from run have "1 \<le> n"
    unfolding phases_registered by (rule run_phases_count_ge)
  with run show "1 \<le> invoked (registered im r) (sp, w)"
    by (simp add: invoked_def)
  from run_phases_count_le [OF run] run show "invoked (registered im r) (sp, w) \<le> 5"
    by (simp add: invoked_def phases_registered)
next
  fix sp r2 s2 r4 s4
  assume h: "BuildSpec im cluster = Inr sp \<and>
      ValidateMachineConfigs im r (snd (ValidateDatacenterConfig r (sp, w))) = ((r2, None), s2) \<and>
      ReconcileCNI im r (snd (ReconcileControlPlane r s2)) = ((r4, None), s4) \<and>
      r4 \<noteq> StopClean"
  obtain s1 where vdc: "ValidateDatacenterConfig r (sp, w) = ((zero_Result, None), s1)"
    using ValidateDatacenterConfig_continues [of r "(sp, w)"]
    by (cases "ValidateDatacenterConfig r (sp, w)") simp
  have r2: "r2 = zero_Result"
    using h ValidateMachineConfigs_zero [of im r "snd (ValidateDatacenterConfig r (sp, w))"] by simp
  obtain sp2 w2 where s2: "s2 = (sp2, w2)" by (cases s2)
  obtain s3 where rcp: "ReconcileControlPlane r s2 = ((zero_Result, None), s3)"
    using ReconcileControlPlane_continues [of r sp2 w2] s2 by simp
  have run: "run_phases (phases (registered im r)) zero_Result (sp, w) =
     (case ReconcileWorkers im r s4 of
        ((r5, Some err), s5) \<Rightarrow> (((zero_Result, Some err), s5), 5)
      | ((r5, None), s5) \<Rightarrow> (((r5, None), s5), 5))"
    using h vdc r2 rcp
    by (simp add: phases_registered zero_Result_def split: prod.splits option.splits)
  show "Reconcile im r cluster w =
        (case ReconcileWorkers im r s4 of
           ((r5, Some err), s5) \<Rightarrow> ((zero_Result, Some err), Some (fst s5), snd s5)
         | ((r5, None), s5) \<Rightarrow> ((r5, None), Some (fst s5), snd s5))"
    using h run by (simp add: Reconcile_def Run_def split: prod.splits option.splits)
  show "invoked (registered im r) (sp, w) = 5"
    using run by (simp add: invoked_def split: prod.splits option.splits)
qed

theorem Reconcile_five_phases_witness:
  "fst (Reconcile (ex_imports True None) ex_reconciler ex_cluster ex_world) = (Continue, None) \<and>
   fst (snd (Reconcile (ex_imports True None) ex_reconciler ex_cluster ex_world)) =
     Some (ex_spec True None) \<and>
   trace (snd (snd (Reconcile (ex_imports True None) ex_reconciler ex_cluster ex_world))) =
     [ClientGet \<lparr>Namespace = ''eksa-system'', Name = ''vsphere-credentials''\<rparr>,
      ValidateCall (ex_spec True None),
      LogInfo ''reconcileControlPlane'' ''Applying control plane CAPI objects'',
      GetClient \<lparr>Namespace = ''eksa-system'', Name = ''w01''\<rparr>,
      CNIReconcile (RemoteClient ''w01'') (ex_spec True None),
      LogInfo ''reconcileWorkers'' ''Applying worker CAPI objects'',
      ApplyAttempt ''A'', StoreWrite ''A'',
      ApplyAttempt ''B'', StoreWrite ''B'',
      ApplyAttempt ''C'', StoreWrite ''C''] \<and>
   invoked (registered (ex_imports True None) ex_reconciler) (ex_spec True None, ex_world) = 5"
proof -
  let ?im = "ex_imports True None"
  let ?sp = "ex_spec True None"
  let ?w2 = "\<lparr>env = [''EKSA_VSPHERE_USERNAME'' \<mapsto> ''admin'', ''EKSA_VSPHERE_PASSWORD'' \<mapsto> ''s3cret''],
       store = Map.empty,
       trace = [ClientGet \<lparr>Namespace = ''eksa-system'', Name = ''vsphere-credentials''\<rparr>,
                ValidateCall (ex_spec True None)]\<rparr>"
  let ?w4 = "\<lparr>env = [''EKSA_VSPHERE_USERNAME'' \<mapsto> ''admin'', ''EKSA_VSPHERE_PASSWORD'' \<mapsto> ''s3cret''],
       store = Map.empty,
       trace = [ClientGet \<lparr>Namespace = ''eksa-system'', Name = ''vsphere-credentials''\<rparr>,
                ValidateCall (ex_spec True None),
                LogInfo ''reconcileControlPlane'' ''Applying control plane CAPI objects'',
                GetClient \<lparr>Namespace = ''eksa-system'', Name = ''w01''\<rparr>,
                CNIReconcile (RemoteClient ''w01'') (ex_spec True None)]\<rparr>"
  have h: "BuildSpec ?im ex_cluster = Inr ?sp \<and>
      ValidateMachineConfigs ?im ex_reconciler (snd (ValidateDatacenterConfig ex_reconciler (?sp, ex_world))) =
        ((Continue, None), (?sp, ?w2)) \<and>
      ReconcileCNI ?im ex_reconciler (snd (ReconcileControlPlane ex_reconciler (?sp, ?w2))) =
        ((Continue, None), (?sp, ?w4)) \<and>
      Continue \<noteq> StopClean"
    by (simp add: ValidateDatacenterConfig_def
        ValidateMachineConfigs_def ReconcileControlPlane_def ReconcileCNI_def
        SetupEnvVars_def VsphereCredentials_def
        os_Setenv_def data_string_def record_event_def ex_reconciler_def
        ex_imports_def ex_spec_def ex_cluster_def ex_world_def ex_secret_def zero_Result_def Let_def)
  have workers: "ReconcileWorkers ?im ex_reconciler (?sp, ?w4) =
      ((Continue, None),
       (?sp, ?w4\<lparr>store := [''A'' \<mapsto> [''replicas'' \<mapsto> ''1''], ''B'' \<mapsto> [''replicas'' \<mapsto> ''2''],
                         ''C'' \<mapsto> [''replicas'' \<mapsto> ''3'']],
                trace := trace ?w4 @
                  [LogInfo ''reconcileWorkers'' ''Applying worker CAPI objects'',
                   ApplyAttempt ''A'', StoreWrite ''A'',
                   ApplyAttempt ''B'', StoreWrite ''B'',
                   ApplyAttempt ''C'', StoreWrite ''C'']\<rparr>))"
    by (simp add: ReconcileWorkers_def workers_producer_def Apply_def apply_object_def in_desired_state_def
        owned_merge_def aggregate_def record_event_def ex_reconciler_def ex_imports_def
        ex_objects_def zero_Result_def Let_def)
  from Reconcile_five_phases [where im = ?im and r = ex_reconciler and cluster = ex_cluster
         and w = ex_world, THEN conjunct2, THEN conjunct2, THEN conjunct2, rule_format, OF h]
  show ?thesis
    by (simp add: workers)
qed

section \<open>An invalid datacenter config\<close>

text \<open>
  C1. The datacenter config is marked invalid with a stored failure message. The
  message is copied to the cluster status and no error is returned, but
  \<^verbatim>\<open>ValidateDatacenterConfig\<close> returns \<^verbatim>\<open>controller.Result{}\<close> in this branch as in the
  valid one, which is the continue signal: the pass does not stop. With collaborators
  that all succeed the four later phases are invoked, up to writing the worker objects.
\<close>

theorem invalid_datacenter_pass_runs_on:
  "\<not> SpecValid (dc_Status (VSphereDatacenter (ex_spec False (Some ''datacenter not found'')))) \<and>
   fst (ValidateDatacenterConfig ex_reconciler (ex_spec False (Some ''datacenter not found''), ex_world)) =
     fst (ValidateDatacenterConfig ex_reconciler (ex_spec True None, ex_world)) \<and>
   fst (Reconcile (ex_imports False (Some ''datacenter not found'')) ex_reconciler ex_cluster ex_world) =
     (Continue, None) \<and>
   fst (snd (Reconcile (ex_imports False (Some ''datacenter not found'')) ex_reconciler ex_cluster ex_world)) =
     Some (set_FailureMessage ''datacenter not found'' (ex_spec False (Some ''datacenter not found''))) \<and>
   trace (snd (snd (Reconcile (ex_imports False (Some ''datacenter not found'')) ex_reconciler
                      ex_cluster ex_world))) =
     [LogError ''validateDatacenterConfig'' (Err ''datacenter not found'')
        ''Invalid VSphereDatacenterConfig'',
      ClientGet \<lparr>Namespace = ''eksa-system'', Name = ''vsphere-credentials''\<rparr>,
      ValidateCall (set_FailureMessage ''datacenter not found''
                      (ex_spec False (Some ''datacenter not found''))),
      LogInfo ''reconcileControlPlane'' ''Applying control plane CAPI objects'',
      GetClient \<lparr>Namespace = ''eksa-system'', Name = ''w01''\<rparr>,
      CNIReconcile (RemoteClient ''w01'')
        (set_FailureMessage ''datacenter not found'' (ex_spec False (Some ''datacenter not found''))),
      LogInfo ''reconcileWorkers'' ''Applying worker CAPI objects'',
      ApplyAttempt ''A'', StoreWrite ''A'',
      ApplyAttempt ''B'', StoreWrite ''B'',
      ApplyAttempt ''C'', StoreWrite ''C''] \<and>
   invoked (registered (ex_imports False (Some ''datacenter not found'')) ex_reconciler)
     (ex_spec False (Some ''datacenter not found''), ex_world) = 5"
  by (simp add: Run_def invoked_def Register_def NewPhaseRunner_def registered_def
  Reconcile_def ValidateDatacenterConfig_def
  ValidateMachineConfigs_def ReconcileControlPlane_def ReconcileCNI_def ReconcileWorkers_def workers_producer_def
  Apply_def apply_object_def in_desired_state_def owned_merge_def aggregate_def
  SetupEnvVars_def VsphereCredentials_def set_FailureMessage_def
  os_Setenv_def data_string_def record_event_def ex_reconciler_def
  ex_imports_def ex_spec_def ex_cluster_def ex_world_def ex_secret_def ex_objects_def zero_Result_def Let_def)

section \<open>Facts about the applier\<close>

lemma attempted_append [simp]: "attempted (xs @ ys) = attempted xs @ attempted ys"
  by (induction xs rule: attempted.induct) simp_all

lemma written_append [simp]: "written (xs @ ys) = written xs @ written ys"
  by (induction xs rule: written.induct) simp_all

lemma apply_object_trace:
  "\<exists>evs. trace (snd (apply_object fails ob w)) = trace w @ evs \<and>
         attempted evs = [obj_id ob] \<and>
         written evs = (if fails ob = None \<and> \<not> in_desired_state ob (store w) then [obj_id ob] else [])"
  by (auto simp: apply_object_def Let_def record_event_def split: option.splits)

lemma apply_object_error: "fst (apply_object fails ob w) = fails ob"
  by (simp add: apply_object_def Let_def split: option.splits)

lemma apply_objects_failures: "fst (apply_objects fails obs w) = failures fails obs"
proof (induction obs arbitrary: w)
  case Nil
  show ?case by (simp add: failures_def)
next
  case (Cons ob obs)
  obtain e w1 where a: "apply_object fails ob w = (e, w1)" by (cases "apply_object fails ob w")
  with apply_object_error [of fails ob w] have e: "e = fails ob" by simp
  show ?case
    using Cons.IH [of w1] a e
    by (cases "fails ob") (auto simp: failures_def split: prod.splits)
qed

lemma apply_objects_trace:
  "\<exists>evs. trace (snd (apply_objects fails obs w)) = trace w @ evs \<and>
         attempted evs = map obj_id obs"
proof (induction obs arbitrary: w)
  case Nil
  show ?case by simp
next
  case (Cons ob obs)
  obtain e w1 where a: "apply_object fails ob w = (e, w1)" by (cases "apply_object fails ob w")
  from apply_object_trace [of fails ob w] a obtain evs1 where
    1: "trace w1 = trace w @ evs1" "attempted evs1 = [obj_id ob]" by auto
  from Cons.IH [of w1] obtain evs2 where
    2: "trace (snd (apply_objects fails obs w1)) = trace w1 @ evs2" "attempted evs2 = map obj_id obs"
    by auto
  have "snd (apply_objects fails (ob # obs) w) = snd (apply_objects fails obs w1)"
    using a by (cases e) (simp_all split: prod.splits)
  with 1 2 show ?case by simp
qed








lemma fst_Apply:
  "producer () = Inr objs \<Longrightarrow>
   fst (Apply fails producer w) = (zero_Result, aggregate (failures fails objs))"
  using apply_objects_failures [of fails objs w]
  by (cases "apply_objects fails objs w") (simp add: Apply_def)

lemma snd_Apply:
  "producer () = Inr objs \<Longrightarrow> snd (Apply fails producer w) = snd (apply_objects fails objs w)"
  by (simp add: Apply_def split: prod.splits)

lemma Apply_outcome:
  assumes "producer () = Inr objs"
  shows "attempted (new_events w (snd (Apply fails producer w))) = map obj_id objs \<and>
         fst (Apply fails producer w) = (zero_Result, aggregate (failures fails objs)) \<and>
         (snd (fst (Apply fails producer w)) = None \<longleftrightarrow> (\<forall>ob \<in> set objs. fails ob = None)) \<and>
         (\<forall>ob err. ob \<in> set objs \<and> fails ob = Some err \<longrightarrow>
            (\<exists>fs. snd (fst (Apply fails producer w)) = Some (Aggregate fs) \<and>
                  (obj_id ob, err) \<in> set fs))"
proof -
  obtain fs w' where a: "apply_objects fails objs w = (fs, w')"
    by (cases "apply_objects fails objs w")
  have fs: "fs = failures fails objs"
    using apply_objects_failures [of fails objs w] a by simp
  from apply_objects_trace [of fails objs w] a obtain evs where
    t: "trace w' = trace w @ evs" "attempted evs = map obj_id objs" by auto
  have res: "Apply fails producer w = ((zero_Result, aggregate (failures fails objs)), w')"
    using assms a fs by (simp add: Apply_def)
  have mem: "(obj_id ob, err) \<in> set (failures fails objs)" if "ob \<in> set objs" "fails ob = Some err" for ob err
    using that by (force simp: failures_def)
  have none: "failures fails objs = [] \<longleftrightarrow> (\<forall>ob \<in> set objs. fails ob = None)"
    by (auto simp: failures_def split: option.splits)
  show ?thesis
  proof (intro conjI allI impI)
    show "attempted (new_events w (snd (Apply fails producer w))) = map obj_id objs"
      using res t by simp
    show "fst (Apply fails producer w) = (zero_Result, aggregate (failures fails objs))"
      using res by simp
    show "snd (fst (Apply fails producer w)) = None \<longleftrightarrow> (\<forall>ob \<in> set objs. fails ob = None)"
      using res none by (simp add: aggregate_def)
  next
    fix ob err assume h: "ob \<in> set objs \<and> fails ob = Some err"
    then have m: "(obj_id ob, err) \<in> set (failures fails objs)" using mem by blast
    then have "failures fails objs \<noteq> []" by auto
    with res m show "\<exists>fs. snd (fst (Apply fails producer w)) = Some (Aggregate fs) \<and>
                  (obj_id ob, err) \<in> set fs"
      by (simp add: aggregate_def)
  qed
qed

lemma ReconcileWorkers_Apply:
  "ReconcileWorkers im r (sp, w) =
     (fst (Apply (ObjectApplier r) (workers_producer im sp)
             (record_event (LogInfo ''reconcileWorkers'' ''Applying worker CAPI objects'') w)),
      (sp, snd (Apply (ObjectApplier r) (workers_producer im sp)
                  (record_event (LogInfo ''reconcileWorkers'' ''Applying worker CAPI objects'') w))))"
  by (simp add: ReconcileWorkers_def Let_def split: prod.splits)

lemma Apply_trace_extends:
  "producer () = Inr objs \<Longrightarrow>
   \<exists>evs. trace (snd (Apply fails producer w)) = trace w @ evs \<and> attempted evs = map obj_id objs"
  using apply_objects_trace [of fails objs w]
  by (simp add: snd_Apply [of producer objs])




section \<open>Apply: every object is attempted\<close>

text \<open>
  C5. For every desired object set the producer computes, \<^verbatim>\<open>Apply\<close> attempts every
  object, in order, whatever happens to the others. It returns no error exactly when no
  object failed; otherwise it returns, after the last attempt, one aggregated error
  that holds the failure of each failed object next to the object's identity. So does
  \<^verbatim>\<open>ReconcileWorkers\<close>, which applies the worker objects of the spec. With the objects
  A, B and C where B fails, C is still attempted and written, and the error names B's
  failure.
\<close>

theorem Apply_attempts_all:
  "(\<forall>objs. producer () = Inr objs \<longrightarrow>
      attempted (new_events w (snd (Apply fails producer w))) = map obj_id objs \<and>
      fst (Apply fails producer w) = (zero_Result, aggregate (failures fails objs)) \<and>
      (snd (fst (Apply fails producer w)) = None \<longleftrightarrow> (\<forall>ob \<in> set objs. fails ob = None)) \<and>
      (\<forall>ob err. ob \<in> set objs \<and> fails ob = Some err \<longrightarrow>
         (\<exists>fs. snd (fst (Apply fails producer w)) = Some (Aggregate fs) \<and>
               (obj_id ob, err) \<in> set fs))) \<and>
   (\<forall>ws. WorkersSpec im sp = Inr ws \<longrightarrow>
      attempted (new_events w (snd (snd (ReconcileWorkers im r (sp, w))))) =
        map obj_id (WorkerObjects ws) \<and>
      fst (ReconcileWorkers im r (sp, w)) =
        (zero_Result, aggregate (failures (ObjectApplier r) (WorkerObjects ws))))"
proof (intro conjI allI impI)
  fix objs assume p: "producer () = Inr objs"
  note out = Apply_outcome [of producer objs w fails, OF p]
  from out show "attempted (new_events w (snd (Apply fails producer w))) = map obj_id objs"
    by blast
  from out show "fst (Apply fails producer w) = (zero_Result, aggregate (failures fails objs))"
    by blast
  from out show "snd (fst (Apply fails producer w)) = None \<longleftrightarrow> (\<forall>ob \<in> set objs. fails ob = None)"
    by blast
  fix ob err assume "ob \<in> set objs \<and> fails ob = Some err"
  with out show "\<exists>fs. snd (fst (Apply fails producer w)) = Some (Aggregate fs) \<and>
                      (obj_id ob, err) \<in> set fs"
    by blast
next
  fix ws assume ws: "WorkersSpec im sp = Inr ws"
  let ?w1 = "record_event (LogInfo ''reconcileWorkers'' ''Applying worker CAPI objects'') w"
  have p: "workers_producer im sp () = Inr (WorkerObjects ws)"
    using ws by (simp add: workers_producer_def)
  from Apply_trace_extends [of "workers_producer im sp" "WorkerObjects ws" "ObjectApplier r" ?w1, OF p]
  obtain evs where
    "trace (snd (Apply (ObjectApplier r) (workers_producer im sp) ?w1)) = trace ?w1 @ evs"
    "attempted evs = map obj_id (WorkerObjects ws)" by blast
  then show "attempted (new_events w (snd (snd (ReconcileWorkers im r (sp, w))))) =
        map obj_id (WorkerObjects ws)"
    by (simp add: ReconcileWorkers_Apply)
  show "fst (ReconcileWorkers im r (sp, w)) =
        (zero_Result, aggregate (failures (ObjectApplier r) (WorkerObjects ws)))"
    by (simp add: ReconcileWorkers_Apply fst_Apply [of "workers_producer im sp" "WorkerObjects ws", OF p])
qed

theorem Apply_attempts_all_witness:
  "Apply ex_fails_B (\<lambda>_. Inr ex_objects) ex_world =
     ((zero_Result, Some (Aggregate [(''B'', Err ''admission webhook denied the request'')])),
      \<lparr>env = Map.empty,
       store = [''A'' \<mapsto> [''replicas'' \<mapsto> ''1''], ''C'' \<mapsto> [''replicas'' \<mapsto> ''3'']],
       trace = [ApplyAttempt ''A'', StoreWrite ''A'', ApplyAttempt ''B'',
                ApplyAttempt ''C'', StoreWrite ''C'']\<rparr>) \<and>
   attempted (new_events ex_world (snd (Apply ex_fails_B (\<lambda>_. Inr ex_objects) ex_world))) =
     [''A'', ''B'', ''C'']"
proof -
  have ev: "Apply ex_fails_B (\<lambda>_. Inr ex_objects) ex_world =
     ((zero_Result, Some (Aggregate [(''B'', Err ''admission webhook denied the request'')])),
      \<lparr>env = Map.empty,
       store = [''A'' \<mapsto> [''replicas'' \<mapsto> ''1''], ''C'' \<mapsto> [''replicas'' \<mapsto> ''3'']],
       trace = [ApplyAttempt ''A'', StoreWrite ''A'', ApplyAttempt ''B'',
                ApplyAttempt ''C'', StoreWrite ''C'']\<rparr>)"
    by (simp add: Apply_def apply_object_def in_desired_state_def owned_merge_def aggregate_def
        record_event_def ex_fails_B_def ex_objects_def ex_world_def Let_def)
  from Apply_attempts_all [where producer = "\<lambda>_. Inr ex_objects" and fails = ex_fails_B
         and w = ex_world, THEN conjunct1, rule_format, of ex_objects, OF refl]
  have "attempted (new_events ex_world (snd (Apply ex_fails_B (\<lambda>_. Inr ex_objects) ex_world))) =
          map obj_id ex_objects"
    by blast
  with ev show ?thesis by (simp add: ex_objects_def)
qed

section \<open>Apply: idempotence\<close>




end
